theory Spec2Isabelle
  imports Complex_Main
begin

section \<open>Shared vocabulary of the two pipelines\<close>

text \<open>
  Both scripts (\<^verbatim>\<open>extract_load/fetch_market_data.py\<close> and
  \<^verbatim>\<open>extract_load/fetch_onchain_data.py\<close>) are sequential Python. Exceptions are
  values of \<open>exn\<close>; a function that may raise returns \<open>exn + 'a\<close> with \<open>Inl\<close> the
  exception. Everything a function does to the outside (HTTP requests, sleeping, logging) is
  appended to an event trace that is passed in and returned.
\<close>

datatype exn =
    HTTPError nat
  | RequestException
  | ValueError string
  | AttributeError
  | OutOfBoundsDatetime
  | OSError
  | RPCError

datatype level = INFO | WARNING | ERROR

datatype log_arg = AInt int | AStr string | AExn exn

datatype param_value = PStr string | PInt int

record http_request =
  url :: string
  params :: "(string \<times> param_value) list"
  timeout :: nat

text \<open>
  One entry per observable action, in program order. \<open>Logged lv fmt args\<close> is one call of
  \<^verbatim>\<open>logger.info/warning/error\<close>: the f-string with each interpolation replaced by
  \<^verbatim>\<open>{}\<close>, and the interpolated values.
\<close>

datatype event =
    Get http_request
  | Sleep nat
  | Logged level string "log_arg list"
  | GetBlock int

fun gets :: "event list \<Rightarrow> http_request list" where
  "gets [] = []"
| "gets (Get r # es) = r # gets es"
| "gets (e # es) = gets es"

fun sleeps :: "event list \<Rightarrow> nat list" where
  "sleeps [] = []"
| "sleeps (Sleep s # es) = s # sleeps es"
| "sleeps (e # es) = sleeps es"

fun warnings :: "event list \<Rightarrow> string list" where
  "warnings [] = []"
| "warnings (Logged WARNING m a # es) = m # warnings es"
| "warnings (e # es) = warnings es"

section \<open>Market pipeline: \<^verbatim>\<open>fetch_market_data\<close>\<close>

text \<open>
  What \<^verbatim>\<open>requests.get(url, params=params, timeout=10)\<close> can do: deliver a response
  with a status code and a decoded JSON body, or raise a \<^verbatim>\<open>RequestException\<close>
  (connection error, timeout). The network is a parameter \<open>net\<close>: \<open>net n r\<close> is the
  outcome of request \<open>r\<close> when \<open>n\<close> requests were sent before it.
\<close>

datatype 'p http_outcome = Response nat 'p | Failed

type_synonym 'p network = "nat \<Rightarrow> http_request \<Rightarrow> 'p http_outcome"

text \<open>
  A Python call either returns a value, returns \<^verbatim>\<open>None\<close> by falling off the end of
  the function body, or raises.
\<close>

datatype 'a py_result = Returned 'a | ReturnedNone | Raised exn

text \<open>\<^verbatim>\<open>response.raise_for_status()\<close> raises \<^verbatim>\<open>HTTPError\<close> for 4xx and 5xx.\<close>

definition raise_for_status :: "nat \<Rightarrow> bool" where
  "raise_for_status status_code \<longleftrightarrow> 400 \<le> status_code \<and> status_code < 600"

text \<open>
  Line 15 of the source: the URL is an f-string without any placeholder, so \<open>coin_id\<close> is
  in scope but not used.
\<close>

definition market_chart_url :: "string \<Rightarrow> string" where
  "market_chart_url coin_id =
     ''https://api.coingecko.com/api/v3/coins/CG-2GwBoDyKGFHywJ2gaSdtrNd7/market_chart''"

definition market_chart_request :: "string \<Rightarrow> string \<Rightarrow> int \<Rightarrow> http_request" where
  "market_chart_request coin_id currency days =
     \<lparr>url = market_chart_url coin_id,
      params = [(''vs_currency'', PStr currency), (''days'', PInt days),
                (''interval'', PStr ''daily'')],
      timeout = 10\<rparr>"

text \<open>
  The loop \<^verbatim>\<open>for attempt in range(1, max_retries + 1)\<close>, entered at \<open>attempt\<close>. It
  ends by \<^verbatim>\<open>return response.json()\<close>, by a \<^verbatim>\<open>raise\<close>, or by exhausting the
  range, after which the function body ends and Python returns \<^verbatim>\<open>None\<close>.
\<close>

function retry_loop ::
  "'p network \<Rightarrow> http_request \<Rightarrow> int \<Rightarrow> int \<Rightarrow> event list \<Rightarrow> 'p py_result \<times> event list"
where
  "retry_loop net req max_retries attempt tr =
     (if max_retries < attempt then (ReturnedNone, tr)
      else
        let tr1 = tr @ [Get req] in
        case net (length (gets tr)) req of
          Response status_code body \<Rightarrow>
            if raise_for_status status_code then
              if status_code = 429 then
                let tr2 = tr1 @ [Logged WARNING
                    ''Rate limit hit (HTTP 429). Attempt {}/{}. Retrying in 5 seconds...''
                    [AInt attempt, AInt max_retries]] in
                if attempt < max_retries
                then retry_loop net req max_retries (attempt + 1) (tr2 @ [Sleep 5])
                else (Raised (HTTPError status_code),
                      tr2 @ [Logged ERROR ''Max retries reached. Failing.'' []])
              else (Raised (HTTPError status_code),
                    tr1 @ [Logged ERROR ''HTTP Error: {}'' [AExn (HTTPError status_code)]])
            else (Returned body, tr1)
        | Failed \<Rightarrow>
            let tr2 = tr1 @ [Logged ERROR ''Request Error fetching data: {}''
                               [AExn RequestException]] in
            if attempt < max_retries
            then retry_loop net req max_retries (attempt + 1) (tr2 @ [Sleep 5])
            else (Raised RequestException, tr2))"
  by pat_completeness auto
termination
  by (relation "measure (\<lambda>(net, req, max_retries, attempt, tr). nat (max_retries - attempt))")
     auto

declare retry_loop.simps [simp del]

definition fetch_market_data ::
  "'p network \<Rightarrow> string \<Rightarrow> string \<Rightarrow> int \<Rightarrow> int \<Rightarrow> event list \<Rightarrow> 'p py_result \<times> event list"
where
  "fetch_market_data net coin_id currency days max_retries tr =
     retry_loop net (market_chart_request coin_id currency days) max_retries 1
       (tr @ [Logged INFO ''Fetching {} days of market data for {} in {}...''
                [AInt days, AStr coin_id, AStr currency]])"

text \<open>
  Vocabulary for the retry policy: an outcome that makes the loop try again (HTTP 429, or a
  \<^verbatim>\<open>RequestException\<close> that is not an \<^verbatim>\<open>HTTPError\<close>), and the exception an
  outcome raises.
\<close>

definition rate_limited :: "'p http_outcome \<Rightarrow> bool" where
  "rate_limited out = (case out of Response status_code body \<Rightarrow> status_code = 429 | Failed \<Rightarrow> False)"

definition retryable :: "'p http_outcome \<Rightarrow> bool" where
  "retryable out = (case out of Response status_code body \<Rightarrow> status_code = 429 | Failed \<Rightarrow> True)"

definition failure_of :: "'p http_outcome \<Rightarrow> exn" where
  "failure_of out = (case out of Response status_code body \<Rightarrow> HTTPError status_code | Failed \<Rightarrow> RequestException)"

section \<open>Market pipeline: \<^verbatim>\<open>process_market_data\<close>\<close>

text \<open>
  The decoded JSON payload is a dictionary from keys to series; a series is a list of
  \<^verbatim>\<open>[epoch-millisecond, value]\<close> pairs. The type of a JSON number is left open as
  \<open>'v\<close>, and \<^verbatim>\<open>astype(float)\<close> is a parameter \<open>as_float :: 'v \<Rightarrow> 'f\<close>: nothing is
  assumed about binary floating point. A calendar date is represented by its day number,
  counted from 1970-01-01 (negative before).
\<close>

type_synonym 'v series = "(int \<times> 'v) list"

type_synonym 'v raw_data = "string \<rightharpoonup> 'v series"

record 'f market_row =
  date :: int
  price :: 'f
  volume :: 'f

text \<open>\<^verbatim>\<open>raw_data.get(key, [])\<close>\<close>

definition get_or_empty :: "'v raw_data \<Rightarrow> string \<Rightarrow> 'v series" where
  "get_or_empty raw_data key = (case raw_data key of None \<Rightarrow> [] | Some s \<Rightarrow> s)"

text \<open>
  \<^verbatim>\<open>pd.merge(df_prices, df_volumes, on="timestamp")\<close>: the default \<^verbatim>\<open>how="inner"\<close>.
  Every pair of a left row and a right row with equal keys gives one row; rows follow the
  order of the left frame, and for one left row the order of the right frame.
\<close>

definition merge_on_timestamp :: "'v series \<Rightarrow> 'v series \<Rightarrow> (int \<times> 'v \<times> 'v) list" where
  "merge_on_timestamp df_prices df_volumes =
     concat (map (\<lambda>(t, p). map (\<lambda>(t', v). (t, p, v)) (filter (\<lambda>(t', v). t' = t) df_volumes))
                 df_prices)"

text \<open>
  \<^verbatim>\<open>pd.to_datetime(..., unit="ms")\<close> holds nanoseconds in 64 bits and raises
  \<^verbatim>\<open>OutOfBoundsDatetime\<close> outside that range; \<^verbatim>\<open>.dt.date\<close> is the UTC calendar day
  of the instant.
\<close>

definition ms_in_bounds :: "int \<Rightarrow> bool" where
  "ms_in_bounds ms \<longleftrightarrow> - 9223372036854 \<le> ms \<and> ms \<le> 9223372036854"

definition date_of_ms :: "int \<Rightarrow> int" where
  "date_of_ms ms = ms div 86400000"

text \<open>\<^verbatim>\<open>df.drop_duplicates(subset=["date"], keep="last")\<close>\<close>

fun drop_duplicates_last :: "'f market_row list \<Rightarrow> 'f market_row list" where
  "drop_duplicates_last [] = []"
| "drop_duplicates_last (r # rs) =
     (if date r \<in> date ` set rs then drop_duplicates_last rs
      else r # drop_duplicates_last rs)"

text \<open>
  Lines 61 to 75: the joined frame with the \<^verbatim>\<open>date\<close> column computed, the raw timestamp
  dropped and both value columns cast.
\<close>

definition joined_rows :: "('v \<Rightarrow> 'f) \<Rightarrow> 'v series \<Rightarrow> 'v series \<Rightarrow> 'f market_row list" where
  "joined_rows as_float prices volumes =
     map (\<lambda>(t, p, v). \<lparr>date = date_of_ms t, price = as_float p, volume = as_float v\<rparr>)
         (merge_on_timestamp prices volumes)"

text \<open>The body of the \<^verbatim>\<open>try\<close> block; \<open>None\<close> is Python's \<^verbatim>\<open>None\<close>.\<close>

definition process_body :: "('v \<Rightarrow> 'f) \<Rightarrow> 'v raw_data option \<Rightarrow> exn + 'f market_row list" where
  "process_body as_float raw_data =
     (case raw_data of
        None \<Rightarrow> Inl AttributeError
      | Some raw \<Rightarrow>
          let prices = get_or_empty raw ''prices'';
              volumes = get_or_empty raw ''total_volumes''
          in if prices = [] \<or> volumes = []
             then Inl (ValueError ''API response is missing 'prices' or 'total_volumes' data.'')
             else if \<not> list_all (\<lambda>(t, p, v). ms_in_bounds t) (merge_on_timestamp prices volumes)
             then Inl OutOfBoundsDatetime
             else Inr (drop_duplicates_last (joined_rows as_float prices volumes)))"

definition process_market_data ::
  "('v \<Rightarrow> 'f) \<Rightarrow> 'v raw_data option \<Rightarrow> event list \<Rightarrow> (exn + 'f market_row list) \<times> event list"
where
  "process_market_data as_float raw_data tr =
     (let tr1 = tr @ [Logged INFO ''Processing raw JSON data into DataFrame...'' []] in
      case process_body as_float raw_data of
        Inl e \<Rightarrow> (Inl e, tr1 @ [Logged ERROR ''Error processing market data: {}'' [AExn e]])
      | Inr df \<Rightarrow> (Inr df, tr1))"

section \<open>Files\<close>

text \<open>
  A CSV file is its header line and its rows; how \<^verbatim>\<open>to_csv\<close> prints a value is not
  modelled. The outside world of a pipeline run is the event trace, the files and the
  directories; \<open>write_ok\<close> says for which paths \<^verbatim>\<open>to_csv\<close> succeeds.
\<close>

record 'r csv_file =
  header :: "string list"
  rows :: "'r list"

record 'r world =
  trace :: "event list"
  files :: "string \<rightharpoonup> 'r csv_file"
  dirs :: "string set"

text \<open>\<^verbatim>\<open>os.path.join\<close> of two components (POSIX).\<close>

definition path_join :: "string \<Rightarrow> string \<Rightarrow> string" where
  "path_join a b =
     (if b \<noteq> [] \<and> hd b = CHR ''/'' then b
      else if a = [] \<or> last a = CHR ''/'' then a @ b
      else a @ ''/'' @ b)"

definition logged :: "level \<Rightarrow> string \<Rightarrow> log_arg list \<Rightarrow> 'r world \<Rightarrow> 'r world" where
  "logged lv msg args w = w\<lparr>trace := trace w @ [Logged lv msg args]\<rparr>"

text \<open>\<^verbatim>\<open>save_to_csv\<close> of \<^verbatim>\<open>fetch_market_data.py\<close>.\<close>

definition save_to_csv_market ::
  "string \<Rightarrow> (string \<Rightarrow> bool) \<Rightarrow> 'f market_row list \<Rightarrow> string \<Rightarrow> 'f market_row world \<Rightarrow>
     (exn + unit) \<times> 'f market_row world"
where
  "save_to_csv_market project_root write_ok df filename w =
     (let output_dir = path_join project_root ''temp_data'';
          w1 = w\<lparr>dirs := insert output_dir (dirs w)\<rparr>;
          output_path = path_join output_dir filename;
          w2 = logged INFO ''Saving data to {}...'' [AStr output_path] w1
      in if write_ok output_path
         then (Inr (),
               logged INFO ''Data saved successfully.'' []
                 (w2\<lparr>files := (files w2)(output_path \<mapsto>
                        \<lparr>header = [''date'', ''price'', ''volume''], rows = df\<rparr>)\<rparr>))
         else (Inl OSError, logged ERROR ''Error saving to CSV: {}'' [AExn OSError] w2))"

text \<open>\<^verbatim>\<open>main\<close> of \<^verbatim>\<open>fetch_market_data.py\<close>; it catches every exception and logs it.\<close>

definition pipeline_failed :: "exn \<Rightarrow> 'r world \<Rightarrow> 'r world" where
  "pipeline_failed e w = logged ERROR ''Pipeline execution failed: {}'' [AExn e] w"

definition main_market ::
  "'v raw_data network \<Rightarrow> ('v \<Rightarrow> 'f) \<Rightarrow> string \<Rightarrow> (string \<Rightarrow> bool) \<Rightarrow> 'f market_row world \<Rightarrow>
     'f market_row world"
where
  "main_market net as_float project_root write_ok w =
     (let w0 = logged INFO ''Starting market data extraction pipeline...'' [] w;
          coin_id = ''ethereum'';
          currency = ''usd'';
          (fetched, tr1) = fetch_market_data net coin_id currency 7 3 (trace w0);
          w1 = w0\<lparr>trace := tr1\<rparr>
      in case fetched of
           Raised e \<Rightarrow> pipeline_failed e w1
         | _ \<Rightarrow>
           let raw_data = (case fetched of Returned d \<Rightarrow> Some d | _ \<Rightarrow> None);
               (processed, tr2) = process_market_data as_float raw_data (trace w1);
               w2 = w1\<lparr>trace := tr2\<rparr>
           in case processed of
                Inl e \<Rightarrow> pipeline_failed e w2
              | Inr df \<Rightarrow>
                  let w3 = logged INFO ''Generated DataFrame with {} records for {}.''
                             [AInt (int (length df)), AStr coin_id] w2;
                      (saved, w4) = save_to_csv_market project_root write_ok df
                                      (coin_id @ ''_market_data.csv'') w3
                  in case saved of
                       Inl e \<Rightarrow> pipeline_failed e w4
                     | Inr u \<Rightarrow> logged INFO ''Pipeline executed successfully.'' [] w4)"

section \<open>On-chain pipeline: \<^verbatim>\<open>extract_block_data\<close>\<close>

text \<open>
  What the script reads of a block: \<^verbatim>\<open>block.number\<close>, \<^verbatim>\<open>block.timestamp\<close> (seconds
  since the epoch, unsigned on chain), \<^verbatim>\<open>block.transactions\<close> (hashes, since
  \<^verbatim>\<open>full_transactions=False\<close>) and \<^verbatim>\<open>block.baseFeePerGas\<close> when the key is there.
  The node session \<^verbatim>\<open>w3\<close> answers \<^verbatim>\<open>w3.eth.block_number\<close> and
  \<^verbatim>\<open>w3.eth.get_block(n, full_transactions=False)\<close>; either call may raise.
\<close>

record block =
  number :: int
  block_timestamp :: nat
  transactions :: "string list"
  baseFeePerGas :: "int option"

record web3 =
  eth_block_number :: "exn + int"
  eth_get_block :: "int \<Rightarrow> exn + block"

record 'f block_row =
  block_number :: int
  timestamp :: string
  transaction_count :: nat
  base_fee_per_gas_gwei :: 'f

subsection \<open>\<^verbatim>\<open>datetime.fromtimestamp(ts, tz=timezone.utc).strftime('%Y-%m-%d %H:%M:%S')\<close>\<close>

text \<open>
  A UTC datetime at second resolution: the day number counted from 1970-01-01 and the time
  of day. Python's \<^verbatim>\<open>datetime\<close> ends with year 9999.
\<close>

record datetime =
  epoch_day :: int
  hour :: nat
  minute :: nat
  second :: nat

definition utc_fromtimestamp :: "nat \<Rightarrow> exn + datetime" where
  "utc_fromtimestamp ts =
     (if 253402300799 < ts then Inl (ValueError ''year 10000 is out of range'')
      else Inr \<lparr>epoch_day = int (ts div 86400), hour = ts mod 86400 div 3600,
                minute = ts mod 3600 div 60, second = ts mod 60\<rparr>)"


text \<open>Year, month and day of a day number in the proleptic Gregorian calendar.\<close>

definition civil_from_days :: "int \<Rightarrow> int \<times> int \<times> int" where
  "civil_from_days z0 =
     (let z = z0 + 719468;
          era = z div 146097;
          doe = z - era * 146097;
          yoe = (doe - doe div 1460 + doe div 36524 - doe div 146096) div 365;
          y = yoe + era * 400;
          doy = doe - (365 * yoe + yoe div 4 - yoe div 100);
          mp = (5 * doy + 2) div 153;
          d = doy - (153 * mp + 2) div 5 + 1;
          m = (if mp < 10 then mp + 3 else mp - 9)
      in (if m \<le> 2 then y + 1 else y, m, d))"

definition digit :: "nat \<Rightarrow> char" where
  "digit n = ''0123456789'' ! (n mod 10)"

definition zpad2 :: "nat \<Rightarrow> string" where
  "zpad2 n = [digit (n div 10), digit n]"

definition zpad4 :: "nat \<Rightarrow> string" where
  "zpad4 n = [digit (n div 1000), digit (n div 100), digit (n div 10), digit n]"

definition strftime :: "datetime \<Rightarrow> string" where
  "strftime dt =
     (case civil_from_days (epoch_day dt) of
        (y, m, d) \<Rightarrow>
          zpad4 (nat y) @ ''-'' @ zpad2 (nat m) @ ''-'' @ zpad2 (nat d) @ '' '' @
          zpad2 (hour dt) @ '':'' @ zpad2 (minute dt) @ '':'' @ zpad2 (second dt))"

subsection \<open>\<^verbatim>\<open>w3.from_wei(number, unit)\<close>\<close>

text \<open>
  The library divides exactly (a decimal of 999 digits) after a range check, and returns the
  integer 0 for 0. The exact quotient is a rational; \<^verbatim>\<open>float(...)\<close> is the parameter
  \<open>to_float :: rat \<Rightarrow> 'f\<close> of the extractor.
\<close>

definition units :: "string \<rightharpoonup> nat" where
  "units = map_of [(''wei'', 1), (''kwei'', 10 ^ 3), (''mwei'', 10 ^ 6), (''gwei'', 10 ^ 9),
                   (''szabo'', 10 ^ 12), (''finney'', 10 ^ 15), (''ether'', 10 ^ 18)]"

definition from_wei :: "int \<Rightarrow> string \<Rightarrow> exn + rat" where
  "from_wei num unit =
     (case units unit of
        None \<Rightarrow> Inl (ValueError ''Unknown unit'')
      | Some unit_value \<Rightarrow>
          if num = 0 then Inr 0
          else if num < 0 \<or> 2 ^ 256 - 1 < num
          then Inl (ValueError ''value must be between 1 and 2**256 - 1'')
          else Inr (of_int num / of_nat unit_value))"

subsection \<open>The loop\<close>

text \<open>Lines 56 to 69: the record built from a fetched block.\<close>

definition block_data :: "(rat \<Rightarrow> 'f) \<Rightarrow> block \<Rightarrow> exn + 'f block_row" where
  "block_data to_float blk =
     (case utc_fromtimestamp (block_timestamp blk) of
        Inl e \<Rightarrow> Inl e
      | Inr dt \<Rightarrow>
          let dt_utc = strftime dt in
          case (case baseFeePerGas blk of
                  None \<Rightarrow> Inr 0
                | Some fee \<Rightarrow> from_wei fee ''gwei'') of
            Inl e \<Rightarrow> Inl e
          | Inr base_fee_gwei \<Rightarrow>
              Inr \<lparr>block_number = number blk,
                   timestamp = dt_utc,
                   transaction_count = length (transactions blk),
                   base_fee_per_gas_gwei = to_float base_fee_gwei\<rparr>)"

text \<open>Lines 54 to 69: the part of the \<^verbatim>\<open>try\<close> block that can raise.\<close>

definition try_block :: "web3 \<Rightarrow> (rat \<Rightarrow> 'f) \<Rightarrow> int \<Rightarrow> exn + 'f block_row" where
  "try_block w3 to_float block_num =
     (case eth_get_block w3 block_num of
        Inl e \<Rightarrow> Inl e
      | Inr blk \<Rightarrow> block_data to_float blk)"

text \<open>
  The loop \<^verbatim>\<open>for block_num in range(latest_block_number, start_block - 1, -1)\<close>, entered
  at \<open>block_num\<close>, with \<open>stop = start_block - 1\<close>. \<open>GetBlock n\<close> in the trace is the call
  \<^verbatim>\<open>w3.eth.get_block(n, ...)\<close>.
\<close>

function extract_loop ::
  "web3 \<Rightarrow> (rat \<Rightarrow> 'f) \<Rightarrow> int \<Rightarrow> int \<Rightarrow> int \<Rightarrow> 'f block_row list \<Rightarrow> event list \<Rightarrow>
     'f block_row list \<times> event list"
where
  "extract_loop w3 to_float num_blocks stop block_num data tr =
     (if block_num \<le> stop then (data, tr)
      else
        let tr1 = tr @ [GetBlock block_num] in
        case try_block w3 to_float block_num of
          Inl e \<Rightarrow>
            extract_loop w3 to_float num_blocks stop (block_num - 1) data
              (tr1 @ [Logged ERROR ''Error extracting data for block {}: {}''
                        [AInt block_num, AExn e]])
        | Inr row \<Rightarrow>
            let data1 = data @ [row];
                tr2 = (if length data1 mod 20 = 0
                       then tr1 @ [Logged INFO ''Processed {}/{} blocks...''
                                     [AInt (int (length data1)), AInt num_blocks]]
                       else tr1)
            in extract_loop w3 to_float num_blocks stop (block_num - 1) data1 tr2)"
  by pat_completeness auto
termination
  by (relation "measure (\<lambda>(w3, to_float, num_blocks, stop, block_num, data, tr).
                           nat (block_num - stop))") auto

declare extract_loop.simps [simp del]

definition extract_block_data ::
  "web3 \<Rightarrow> (rat \<Rightarrow> 'f) \<Rightarrow> int \<Rightarrow> event list \<Rightarrow> (exn + 'f block_row list) \<times> event list"
where
  "extract_block_data w3 to_float num_blocks tr =
     (case eth_block_number w3 of
        Inl e \<Rightarrow> (Inl e, tr)
      | Inr latest_block_number \<Rightarrow>
          let tr1 = tr @ [Logged INFO ''Latest block number: {}'' [AInt latest_block_number],
                          Logged INFO ''Extracting data for the last {} blocks...''
                            [AInt num_blocks]];
              start_block = latest_block_number - num_blocks + 1;
              start_block = (if start_block < 0 then 0 else start_block);
              (data, tr2) = extract_loop w3 to_float num_blocks (start_block - 1)
                              latest_block_number [] tr1
          in (Inr data, tr2))"

fun get_blocks :: "event list \<Rightarrow> int list" where
  "get_blocks [] = []"
| "get_blocks (GetBlock n # es) = n # get_blocks es"
| "get_blocks (e # es) = get_blocks es"

text \<open>
  The partial-failure policy in the words of the specification: over the block numbers tried,
  each step gives an optional record, kept only when the step succeeded.
\<close>

definition successful_rows :: "web3 \<Rightarrow> (rat \<Rightarrow> 'f) \<Rightarrow> int list \<Rightarrow> 'f block_row list" where
  "successful_rows w3 to_float ns =
     concat (map (\<lambda>n. case try_block w3 to_float n of Inl e \<Rightarrow> [] | Inr row \<Rightarrow> [row]) ns)"

text \<open>\<^verbatim>\<open>save_to_csv\<close> of \<^verbatim>\<open>fetch_onchain_data.py\<close>.\<close>

definition save_to_csv_onchain ::
  "string \<Rightarrow> (string \<Rightarrow> bool) \<Rightarrow> 'f block_row list \<Rightarrow> string \<Rightarrow> 'f block_row world \<Rightarrow>
     (exn + unit) \<times> 'f block_row world"
where
  "save_to_csv_onchain project_root write_ok data filename w =
     (if data = [] then (Inr (), logged WARNING ''No data to save.'' [] w)
      else
        let output_dir = path_join project_root ''temp_data'';
            w1 = w\<lparr>dirs := insert output_dir (dirs w)\<rparr>;
            output_path = path_join output_dir filename;
            w2 = logged INFO ''Saving {} records to {}...''
                   [AInt (int (length data)), AStr output_path] w1
        in if write_ok output_path
           then (Inr (),
                 logged INFO ''On-chain data saved successfully.'' []
                   (w2\<lparr>files := (files w2)(output_path \<mapsto>
                          \<lparr>header = [''block_number'', ''timestamp'', ''transaction_count'',
                                     ''base_fee_per_gas_gwei''],
                           rows = data\<rparr>)\<rparr>))
           else (Inl OSError, logged ERROR ''Error saving to CSV: {}'' [AExn OSError] w2))"

section \<open>Properties of the fetcher\<close>

lemma gets_append [simp]: "gets (xs @ ys) = gets xs @ gets ys"
  by (induction xs rule: gets.induct) auto

lemma sleeps_append [simp]: "sleeps (xs @ ys) = sleeps xs @ sleeps ys"
  by (induction xs rule: sleeps.induct) auto

text \<open>
  C10. With \<open>max_retries \<le> 0\<close> the range of attempts is empty: no request is sent and the
  call returns \<^verbatim>\<open>None\<close>, neither a payload nor an exception.
\<close>

theorem fetch_market_data_no_attempts:
  "max_retries \<le> 0 \<Longrightarrow>
     fetch_market_data net coin_id currency days max_retries tr =
       (ReturnedNone,
        tr @ [Logged INFO ''Fetching {} days of market data for {} in {}...''
                [AInt days, AStr coin_id, AStr currency]]) \<and>
     gets (snd (fetch_market_data net coin_id currency days max_retries tr)) = gets tr"
  by (simp add: fetch_market_data_def retry_loop.simps)

theorem fetch_market_data_no_attempts_witness:
  "(0::int) \<le> 0 \<and>
   fetch_market_data (\<lambda>n r. Response 200 ()) ''ethereum'' ''usd'' 7 0 [] =
     (ReturnedNone,
      [Logged INFO ''Fetching {} days of market data for {} in {}...''
         [AInt 7, AStr ''ethereum'', AStr ''usd'']]) \<and>
   gets (snd (fetch_market_data (\<lambda>n r. Response 200 ()) ''ethereum'' ''usd'' 7 0 [])) = []"
  using fetch_market_data_no_attempts
    [of 0 "\<lambda>n r. Response 200 ()" "''ethereum''" "''usd''" 7 "[]"]
  by simp

lemma retry_loop_exhausted:
  "a \<le> m \<Longrightarrow> \<forall>i < nat (m - a + 1). retryable (net (length (gets tr) + i) req) \<Longrightarrow>
     fst (retry_loop net req m a tr) = Raised (failure_of (net (length (gets tr) + nat (m - a)) req)) \<and>
     gets (snd (retry_loop net req m a tr)) = gets tr @ replicate (nat (m - a + 1)) req \<and>
     sleeps (snd (retry_loop net req m a tr)) = sleeps tr @ replicate (nat (m - a)) 5"
proof (induction "nat (m - a)" arbitrary: a tr)
  case 0
  then have am: "a = m" by simp
  from 0(3) have "retryable (net (length (gets tr)) req)"
    using am by (auto dest: spec [of _ 0])
  then show ?case
    using am
    by (cases "net (length (gets tr)) req")
       (simp_all add: retry_loop.simps [of net req m m tr] retryable_def failure_of_def
          raise_for_status_def Let_def)
next
  case (Suc k)
  then have lt: "a < m" and k: "k = nat (m - (a + 1))" by simp_all
  have r0: "retryable (net (length (gets tr)) req)"
    using Suc.prems(2) lt by (auto dest: spec [of _ 0])
  define tr' where "tr' = (case net (length (gets tr)) req of
      Response s b \<Rightarrow> tr @ [Get req, Logged WARNING
                    ''Rate limit hit (HTTP 429). Attempt {}/{}. Retrying in 5 seconds...''
                    [AInt a, AInt m], Sleep 5]
    | Failed \<Rightarrow> tr @ [Get req, Logged ERROR ''Request Error fetching data: {}''
                               [AExn RequestException], Sleep 5])"
  have step: "retry_loop net req m a tr = retry_loop net req m (a + 1) tr'"
    using r0 lt
    by (cases "net (length (gets tr)) req")
       (simp_all add: retry_loop.simps [of net req m a tr] retryable_def tr'_def
          raise_for_status_def Let_def)
  have g: "gets tr' = gets tr @ [req]" and s: "sleeps tr' = sleeps tr @ [5]"
    by (cases "net (length (gets tr)) req"; simp add: tr'_def)+
  have pre: "\<forall>i < nat (m - (a + 1) + 1). retryable (net (length (gets tr') + i) req)"
  proof (intro allI impI)
    fix i assume "i < nat (m - (a + 1) + 1)"
    then have "Suc i < nat (m - a + 1)" using lt by linarith
    with Suc.prems(2) have "retryable (net (length (gets tr) + Suc i) req)" by blast
    then show "retryable (net (length (gets tr') + i) req)" by (simp add: g)
  qed
  have le: "a + 1 \<le> m" using lt by simp
  have idx: "length (gets tr') + nat (m - (a + 1)) = length (gets tr) + nat (m - a)"
    using lt by (simp add: g) 
  have n1: "nat (m - a + 1) = Suc (nat (m - (a + 1) + 1))"
    and n2: "nat (m - a) = Suc (nat (m - (a + 1)))"
    using lt by linarith+
  show ?case
    using Suc.hyps(1) [OF k le pre]
    by (simp add: step g s n1 n2 idx [unfolded n2])
qed

lemma retry_loop_decided:
  assumes "k < nat (m - a + 1)"
    and "\<forall>i < k. retryable (net (length (gets tr) + i) req)"
    and "net (length (gets tr) + k) req = Response s body"
    and "s \<noteq> 429"
  shows "fst (retry_loop net req m a tr) =
           (if raise_for_status s then Raised (HTTPError s) else Returned body) \<and>
         gets (snd (retry_loop net req m a tr)) = gets tr @ replicate (Suc k) req \<and>
         sleeps (snd (retry_loop net req m a tr)) = sleeps tr @ replicate k 5"
  using assms
proof (induction k arbitrary: a tr)
  case 0
  then have "a \<le> m" by simp
  with 0 show ?case
    by (simp add: retry_loop.simps [of net req m a tr] Let_def)
next
  case (Suc k)
  then have lt: "a < m" by linarith
  have r0: "retryable (net (length (gets tr)) req)"
    using Suc.prems(2) by (auto dest: spec [of _ 0])
  define tr' where "tr' = (case net (length (gets tr)) req of
      Response s b \<Rightarrow> tr @ [Get req, Logged WARNING
                    ''Rate limit hit (HTTP 429). Attempt {}/{}. Retrying in 5 seconds...''
                    [AInt a, AInt m], Sleep 5]
    | Failed \<Rightarrow> tr @ [Get req, Logged ERROR ''Request Error fetching data: {}''
                               [AExn RequestException], Sleep 5])"
  have step: "retry_loop net req m a tr = retry_loop net req m (a + 1) tr'"
    using r0 lt
    by (cases "net (length (gets tr)) req")
       (simp_all add: retry_loop.simps [of net req m a tr] retryable_def tr'_def
          raise_for_status_def Let_def)
  have g: "gets tr' = gets tr @ [req]" and sl: "sleeps tr' = sleeps tr @ [5]"
    by (cases "net (length (gets tr)) req"; simp add: tr'_def)+
  have k': "k < nat (m - (a + 1) + 1)" using Suc.prems(1) by linarith
  have pre: "\<forall>i < k. retryable (net (length (gets tr') + i) req)"
    using Suc.prems(2) by (auto simp: g)
  have dec: "net (length (gets tr') + k) req = Response s body"
    using Suc.prems(3) by (simp add: g)
  show ?case
    using Suc.IH [OF k' pre dec Suc.prems(4)]
    by (simp add: step g sl)
qed

lemma rate_limited_retryable: "rate_limited out \<Longrightarrow> retryable out \<and> failure_of out = HTTPError 429"
  by (cases out) (simp_all add: rate_limited_def retryable_def failure_of_def)

text \<open>
  C3. With \<open>max_retries \<ge> 1\<close>, counting requests from 0: if all \<open>max_retries\<close>
  requests are answered 429, the call raises that \<^verbatim>\<open>HTTPError\<close> after exactly
  \<open>max_retries\<close> requests, having slept 5 seconds between them and not after the last; an
  HTTP error other than 429 at request \<open>k\<close> (after \<open>k\<close> retried failures) is raised at
  once, no further request is sent; if all requests fail in a way that is retried (429 or a
  network error), the last failure is raised after \<open>max_retries\<close> requests; and a good
  response at request \<open>k\<close> is returned, after \<open>k\<close> sleeps of 5 seconds.
\<close>

theorem fetch_market_data_retry_policy:
  "1 \<le> max_retries \<Longrightarrow>
   (let req = market_chart_request coin_id currency days;
        n = nat max_retries;
        res = fst (fetch_market_data net coin_id currency days max_retries []);
        tr = snd (fetch_market_data net coin_id currency days max_retries [])
    in ((\<forall>i<n. rate_limited (net i req)) \<longrightarrow>
          res = Raised (HTTPError 429) \<and> gets tr = replicate n req \<and>
          sleeps tr = replicate (n - 1) 5) \<and>
       (\<forall>k s body. k < n \<and> (\<forall>i<k. retryable (net i req)) \<and> net k req = Response s body \<and>
            raise_for_status s \<and> s \<noteq> 429 \<longrightarrow>
          res = Raised (HTTPError s) \<and> gets tr = replicate (Suc k) req \<and>
          sleeps tr = replicate k 5) \<and>
       ((\<forall>i<n. retryable (net i req)) \<longrightarrow>
          res = Raised (failure_of (net (n - 1) req)) \<and> gets tr = replicate n req \<and>
          sleeps tr = replicate (n - 1) 5) \<and>
       (\<forall>k s body. k < n \<and> (\<forall>i<k. retryable (net i req)) \<and> net k req = Response s body \<and>
            \<not> raise_for_status s \<longrightarrow>
          res = Returned body \<and> gets tr = replicate (Suc k) req \<and>
          sleeps tr = replicate k 5))"
proof -
  assume m: "1 \<le> max_retries"
  define req where "req = market_chart_request coin_id currency days"
  define tr0 where "tr0 = [Logged INFO ''Fetching {} days of market data for {} in {}...''
                [AInt days, AStr coin_id, AStr currency]]"
  define n where "n = nat max_retries"
  have f: "fetch_market_data net coin_id currency days max_retries [] =
             retry_loop net req max_retries 1 tr0"
    by (simp add: fetch_market_data_def req_def tr0_def)
  have g0: "gets tr0 = []" and s0: "sleeps tr0 = []" by (simp_all add: tr0_def)
  have n1: "nat (max_retries - 1 + 1) = n" and n2: "nat (max_retries - 1) = n - 1"
    using m by (simp_all add: n_def nat_diff_distrib)
  have all: "fst (retry_loop net req max_retries 1 tr0) = Raised (failure_of (net (n - 1) req)) \<and>
       gets (snd (retry_loop net req max_retries 1 tr0)) = replicate n req \<and>
       sleeps (snd (retry_loop net req max_retries 1 tr0)) = replicate (n - 1) 5"
    if "\<forall>i<n. retryable (net i req)"
    using retry_loop_exhausted [of 1 max_retries net tr0 req] m that
    by (simp add: g0 s0 n2 [unfolded n_def] n_def)
  have dec: "fst (retry_loop net req max_retries 1 tr0) =
           (if raise_for_status s then Raised (HTTPError s) else Returned body) \<and>
         gets (snd (retry_loop net req max_retries 1 tr0)) = replicate (Suc k) req \<and>
         sleeps (snd (retry_loop net req max_retries 1 tr0)) = replicate k 5"
    if "k < n" "\<forall>i<k. retryable (net i req)" "net k req = Response s body" "s \<noteq> 429"
    for k s body
    using retry_loop_decided [of k max_retries 1 net tr0 req s body] that
    by (simp add: g0 s0 n_def)
  have c1: "(\<forall>i<n. rate_limited (net i req)) \<longrightarrow>
          fst (retry_loop net req max_retries 1 tr0) = Raised (HTTPError 429) \<and>
          gets (snd (retry_loop net req max_retries 1 tr0)) = replicate n req \<and>
          sleeps (snd (retry_loop net req max_retries 1 tr0)) = replicate (n - 1) 5"
  proof
    assume a: "\<forall>i<n. rate_limited (net i req)"
    have "0 < n" using m by (simp add: n_def)
    then have "n - 1 < n" by simp
    with a have "failure_of (net (n - 1) req) = HTTPError 429"
      using rate_limited_retryable by blast
    moreover from a have "\<forall>i<n. retryable (net i req)"
      using rate_limited_retryable by blast
    ultimately show "fst (retry_loop net req max_retries 1 tr0) = Raised (HTTPError 429) \<and>
          gets (snd (retry_loop net req max_retries 1 tr0)) = replicate n req \<and>
          sleeps (snd (retry_loop net req max_retries 1 tr0)) = replicate (n - 1) 5"
      using all by simp
  qed
  have c2: "\<forall>k s body. k < n \<and> (\<forall>i<k. retryable (net i req)) \<and> net k req = Response s body \<and>
            raise_for_status s \<and> s \<noteq> 429 \<longrightarrow>
          fst (retry_loop net req max_retries 1 tr0) = Raised (HTTPError s) \<and>
          gets (snd (retry_loop net req max_retries 1 tr0)) = replicate (Suc k) req \<and>
          sleeps (snd (retry_loop net req max_retries 1 tr0)) = replicate k 5"
    using dec by (metis (full_types))
  have c4: "\<forall>k s body. k < n \<and> (\<forall>i<k. retryable (net i req)) \<and> net k req = Response s body \<and>
            \<not> raise_for_status s \<longrightarrow>
          fst (retry_loop net req max_retries 1 tr0) = Returned body \<and>
          gets (snd (retry_loop net req max_retries 1 tr0)) = replicate (Suc k) req \<and>
          sleeps (snd (retry_loop net req max_retries 1 tr0)) = replicate k 5"
  proof (intro allI impI)
    fix k s body
    assume a: "k < n \<and> (\<forall>i<k. retryable (net i req)) \<and> net k req = Response s body \<and>
            \<not> raise_for_status s"
    then have "s \<noteq> 429" by (auto simp: raise_for_status_def)
    with a dec [of k s body]
    show "fst (retry_loop net req max_retries 1 tr0) = Returned body \<and>
          gets (snd (retry_loop net req max_retries 1 tr0)) = replicate (Suc k) req \<and>
          sleeps (snd (retry_loop net req max_retries 1 tr0)) = replicate k 5" by simp
  qed
  show ?thesis
    unfolding Let_def f req_def [symmetric] n_def [symmetric]
    using c1 c2 all c4 by blast
qed

theorem fetch_market_data_retry_policy_witness:
  "(1::int) \<le> 3 \<and>
   fst (fetch_market_data (\<lambda>n r. if n < 2 then Response 429 [] else Response 200 [(1::nat)])
          ''ethereum'' ''usd'' 7 3 []) = Returned [1] \<and>
   sleeps (snd (fetch_market_data (\<lambda>n r. if n < 2 then Response 429 [] else Response 200 [(1::nat)])
          ''ethereum'' ''usd'' 7 3 [])) = [5, 5] \<and>
   fst (fetch_market_data (\<lambda>n r. Response 429 ([]::nat list)) ''ethereum'' ''usd'' 7 3 []) =
     Raised (HTTPError 429) \<and>
   sleeps (snd (fetch_market_data (\<lambda>n r. Response 429 ([]::nat list)) ''ethereum'' ''usd'' 7 3 []))
     = [5, 5] \<and>
   length (gets (snd (fetch_market_data (\<lambda>n r. Response 429 ([]::nat list))
                        ''ethereum'' ''usd'' 7 3 []))) = 3"
proof -
  have h: "(1::int) \<le> 3" by simp
  note a = fetch_market_data_retry_policy
      [where net = "\<lambda>n r. if n < 2 then Response 429 [] else Response 200 [(1::nat)]"
         and coin_id = "''ethereum''" and currency = "''usd''" and days = 7, OF h,
       unfolded Let_def]
  note b = fetch_market_data_retry_policy
      [where net = "\<lambda>n r. Response 429 ([]::nat list)"
         and coin_id = "''ethereum''" and currency = "''usd''" and days = 7, OF h,
       unfolded Let_def]
  from a have a4: "fst (fetch_market_data (\<lambda>n r. if n < 2 then Response 429 [] else Response 200 [(1::nat)])
          ''ethereum'' ''usd'' 7 3 []) = Returned [1] \<and>
   sleeps (snd (fetch_market_data (\<lambda>n r. if n < 2 then Response 429 [] else Response 200 [(1::nat)])
          ''ethereum'' ''usd'' 7 3 [])) = replicate 2 5"
    by (elim conjE allE [of _ 2] allE [of _ 200] allE [of _ "[1::nat]"])
       (simp add: retryable_def raise_for_status_def)
  from b have b1: "fst (fetch_market_data (\<lambda>n r. Response 429 ([]::nat list)) ''ethereum'' ''usd'' 7 3 []) =
     Raised (HTTPError 429) \<and>
   sleeps (snd (fetch_market_data (\<lambda>n r. Response 429 ([]::nat list)) ''ethereum'' ''usd'' 7 3 []))
     = replicate 2 5 \<and>
   gets (snd (fetch_market_data (\<lambda>n r. Response 429 ([]::nat list))
                        ''ethereum'' ''usd'' 7 3 [])) = replicate 3 (market_chart_request ''ethereum'' ''usd'' 7)"
    by (simp add: rate_limited_def)
  from a4 b1 show ?thesis by (simp add: numeral_2_eq_2)
qed

lemma retry_loop_gets_cong:
  "gets tr = gets tr' \<Longrightarrow>
     fst (retry_loop net req m a tr) = fst (retry_loop net req m a tr') \<and>
     gets (snd (retry_loop net req m a tr)) = gets (snd (retry_loop net req m a tr'))"
proof (induction "nat (m + 1 - a)" arbitrary: a tr tr')
  case 0
  then have "m < a" by simp
  with 0 show ?case
    by (simp add: retry_loop.simps [of net req m a tr] retry_loop.simps [of net req m a tr'])
next
  case (Suc k)
  then have k: "k = nat (m + 1 - (a + 1))" by simp
  have ih: "\<And>t t'. gets t = gets t' \<Longrightarrow>
     fst (retry_loop net req m (a + 1) t) = fst (retry_loop net req m (a + 1) t') \<and>
     gets (snd (retry_loop net req m (a + 1) t)) = gets (snd (retry_loop net req m (a + 1) t'))"
    using Suc.hyps(1) [OF k] by blast
  show ?case
    using Suc.prems ih
    by (cases "net (length (gets tr')) req")
       (simp_all add: retry_loop.simps [of net req m a tr] retry_loop.simps [of net req m a tr']
          Let_def)
qed

text \<open>
  C1. The request does not depend on the coin identifier: for any two identifiers, any
  network and any retry count, the call sends the same requests and gives the same result.
  For \<^verbatim>\<open>coin_id="bitcoin"\<close> the request goes to the fixed path
  \<^verbatim>\<open>/coins/CG-2GwBoDyKGFHywJ2gaSdtrNd7/market_chart\<close>, in which the identifier does not
  occur; the identifier only appears in the log line.
\<close>

theorem fetch_market_data_ignores_coin_id:
  "fst (fetch_market_data net coin_id currency days max_retries tr) =
     fst (fetch_market_data net coin_id' currency days max_retries tr) \<and>
   gets (snd (fetch_market_data net coin_id currency days max_retries tr)) =
     gets (snd (fetch_market_data net coin_id' currency days max_retries tr)) \<and>
   fetch_market_data (\<lambda>n r. Response 200 body) ''bitcoin'' ''usd'' 7 3 [] =
     (Returned body,
      [Logged INFO ''Fetching {} days of market data for {} in {}...''
         [AInt 7, AStr ''bitcoin'', AStr ''usd''],
       Get \<lparr>url = ''https://api.coingecko.com/api/v3/coins/CG-2GwBoDyKGFHywJ2gaSdtrNd7/market_chart'',
            params = [(''vs_currency'', PStr ''usd''), (''days'', PInt 7),
                      (''interval'', PStr ''daily'')],
            timeout = 10\<rparr>])"
proof -
  have r: "market_chart_request coin_id currency days = market_chart_request coin_id' currency days"
    by (simp add: market_chart_request_def market_chart_url_def)
  have "fetch_market_data (\<lambda>n r. Response 200 body) ''bitcoin'' ''usd'' 7 3 [] =
     (Returned body,
      [Logged INFO ''Fetching {} days of market data for {} in {}...''
         [AInt 7, AStr ''bitcoin'', AStr ''usd''],
       Get \<lparr>url = ''https://api.coingecko.com/api/v3/coins/CG-2GwBoDyKGFHywJ2gaSdtrNd7/market_chart'',
            params = [(''vs_currency'', PStr ''usd''), (''days'', PInt 7),
                      (''interval'', PStr ''daily'')],
            timeout = 10\<rparr>])"
    by (simp add: fetch_market_data_def retry_loop.simps market_chart_request_def
          market_chart_url_def raise_for_status_def)
  then show ?thesis
    using retry_loop_gets_cong
      [of "tr @ [Logged INFO ''Fetching {} days of market data for {} in {}...''
                   [AInt days, AStr coin_id, AStr currency]]"
          "tr @ [Logged INFO ''Fetching {} days of market data for {} in {}...''
                   [AInt days, AStr coin_id', AStr currency]]"
          net "market_chart_request coin_id' currency days" max_retries 1]
    by (simp add: fetch_market_data_def r)
qed

section \<open>Properties of the transformer\<close>

text \<open>
  C8. When the \<^verbatim>\<open>prices\<close> series or the \<^verbatim>\<open>total_volumes\<close> series is empty, or its
  key is absent from the payload, the transformer raises the \<^verbatim>\<open>ValueError\<close> (after
  logging it) and returns no rows.
\<close>

theorem process_market_data_empty_series:
  "raw ''prices'' = None \<or> raw ''prices'' = Some [] \<or>
   raw ''total_volumes'' = None \<or> raw ''total_volumes'' = Some [] \<Longrightarrow>
   process_market_data as_float (Some raw) tr =
     (Inl (ValueError ''API response is missing 'prices' or 'total_volumes' data.''),
      tr @ [Logged INFO ''Processing raw JSON data into DataFrame...'' [],
            Logged ERROR ''Error processing market data: {}''
              [AExn (ValueError ''API response is missing 'prices' or 'total_volumes' data.'')]])"
  by (auto simp: process_market_data_def process_body_def get_or_empty_def Let_def)

theorem process_market_data_empty_series_witness:
  "[''prices'' \<mapsto> [(1700000000000, 2000::int)]] ''total_volumes'' = None \<and>
   process_market_data (\<lambda>x::int. x) (Some [''prices'' \<mapsto> [(1700000000000, 2000)]]) [] =
     (Inl (ValueError ''API response is missing 'prices' or 'total_volumes' data.''),
      [Logged INFO ''Processing raw JSON data into DataFrame...'' [],
       Logged ERROR ''Error processing market data: {}''
         [AExn (ValueError ''API response is missing 'prices' or 'total_volumes' data.'')]])"
  using process_market_data_empty_series
    [of "[''prices'' \<mapsto> [(1700000000000, 2000)]]" "\<lambda>x::int. x" "[]"]
  by simp

















section \<open>The two writers on an empty sequence\<close>

lemma warnings_append [simp]: "warnings (xs @ ys) = warnings xs @ warnings ys"
  by (induction xs rule: warnings.induct) auto

text \<open>
  C2. The two writers on an empty record sequence. The on-chain writer logs the warning
  \<^verbatim>\<open>No data to save.\<close>, returns without raising and leaves the files as they are. The
  market writer has no such check: on an empty frame it writes a file that holds the header
  line only and logs success, no warning. \<^verbatim>\<open>main\<close> reaches that case when the two
  series have no timestamp in common.
\<close>

theorem save_to_csv_empty_records:
  "save_to_csv_onchain project_root write_ok [] filename w =
     (Inr (), w\<lparr>trace := trace w @ [Logged WARNING ''No data to save.'' []]\<rparr>) \<and>
   files (snd (save_to_csv_onchain project_root write_ok [] filename w)) = files w \<and>
   save_to_csv_market ''/app'' (\<lambda>p. True) ([] :: int market_row list) ''ethereum_market_data.csv''
       \<lparr>trace = [], files = Map.empty, dirs = {}\<rparr> =
     (Inr (),
      \<lparr>trace = [Logged INFO ''Saving data to {}...''
                   [AStr ''/app/temp_data/ethereum_market_data.csv''],
                 Logged INFO ''Data saved successfully.'' []],
       files = [''/app/temp_data/ethereum_market_data.csv'' \<mapsto>
                  \<lparr>header = [''date'', ''price'', ''volume''], rows = []\<rparr>],
       dirs = {''/app/temp_data''}\<rparr>) \<and>
   files (main_market
            (\<lambda>n r. Response 200
               ([''prices'' \<mapsto> [(0, 1)], ''total_volumes'' \<mapsto> [(86400000, 2)]] :: int raw_data))
            (\<lambda>x::int. x) ''/app'' (\<lambda>p. True) \<lparr>trace = [], files = Map.empty, dirs = {}\<rparr>)
       ''/app/temp_data/ethereum_market_data.csv'' =
     Some \<lparr>header = [''date'', ''price'', ''volume''], rows = []\<rparr> \<and>
   warnings (trace (main_market
            (\<lambda>n r. Response 200
               ([''prices'' \<mapsto> [(0, 1)], ''total_volumes'' \<mapsto> [(86400000, 2)]] :: int raw_data))
            (\<lambda>x::int. x) ''/app'' (\<lambda>p. True) \<lparr>trace = [], files = Map.empty, dirs = {}\<rparr>)) = []"
proof -
  have a: "save_to_csv_onchain project_root write_ok [] filename w =
     (Inr (), w\<lparr>trace := trace w @ [Logged WARNING ''No data to save.'' []]\<rparr>)"
    by (simp add: save_to_csv_onchain_def logged_def)
  have b: "save_to_csv_market ''/app'' (\<lambda>p. True) ([] :: int market_row list) ''ethereum_market_data.csv''
       \<lparr>trace = [], files = Map.empty, dirs = {}\<rparr> =
     (Inr (),
      \<lparr>trace = [Logged INFO ''Saving data to {}...''
                   [AStr ''/app/temp_data/ethereum_market_data.csv''],
                 Logged INFO ''Data saved successfully.'' []],
       files = [''/app/temp_data/ethereum_market_data.csv'' \<mapsto>
                  \<lparr>header = [''date'', ''price'', ''volume''], rows = []\<rparr>],
       dirs = {''/app/temp_data''}\<rparr>)"
    by (simp add: save_to_csv_market_def logged_def path_join_def Let_def)
  let ?raw = "[''prices'' \<mapsto> [(0, 1)], ''total_volumes'' \<mapsto> [(86400000, 2)]] :: int raw_data"
  let ?net = "\<lambda>(n::nat) (r::http_request). Response 200 ?raw"
  have f: "fst (fetch_market_data ?net ''ethereum'' ''usd'' 7 3 tr) = Returned ?raw" for tr
    by (simp add: fetch_market_data_def retry_loop.simps raise_for_status_def Let_def)
  have fw: "warnings (snd (fetch_market_data ?net ''ethereum'' ''usd'' 7 3 tr)) = warnings tr" for tr
    by (simp add: fetch_market_data_def retry_loop.simps raise_for_status_def Let_def)
  have p: "process_market_data (\<lambda>x::int. x) (Some ?raw) tr =
           (Inr [], tr @ [Logged INFO ''Processing raw JSON data into DataFrame...'' []])" for tr
    by (simp add: process_market_data_def process_body_def get_or_empty_def joined_rows_def
          merge_on_timestamp_def Let_def)
  have m: "main_market ?net (\<lambda>x::int. x) ''/app'' (\<lambda>p. True) \<lparr>trace = [], files = Map.empty, dirs = {}\<rparr> =
      \<lparr>trace = snd (fetch_market_data ?net ''ethereum'' ''usd'' 7 3
                     [Logged INFO ''Starting market data extraction pipeline...'' []]) @
                [Logged INFO ''Processing raw JSON data into DataFrame...'' [],
                 Logged INFO ''Generated DataFrame with {} records for {}.''
                   [AInt 0, AStr ''ethereum''],
                 Logged INFO ''Saving data to {}...''
                   [AStr ''/app/temp_data/ethereum_market_data.csv''],
                 Logged INFO ''Data saved successfully.'' [],
                 Logged INFO ''Pipeline executed successfully.'' []],
       files = [''/app/temp_data/ethereum_market_data.csv'' \<mapsto>
                  \<lparr>header = [''date'', ''price'', ''volume''], rows = []\<rparr>],
       dirs = {''/app/temp_data''}\<rparr>"
    using f [of "[Logged INFO ''Starting market data extraction pipeline...'' []]"]
    by (simp add: main_market_def logged_def p save_to_csv_market_def path_join_def Let_def
          split_beta)
  show ?thesis
    by (simp add: a b m fw)
qed

section \<open>Properties of the block extractor\<close>

lemma get_blocks_append [simp]: "get_blocks (xs @ ys) = get_blocks xs @ get_blocks ys"
  by (induction xs rule: get_blocks.induct) auto

lemma successful_rows_append [simp]:
  "successful_rows w3 tf (xs @ ys) = successful_rows w3 tf xs @ successful_rows w3 tf ys"
  by (simp add: successful_rows_def)

lemma successful_rows_Nil [simp]: "successful_rows w3 tf [] = []"
  by (simp add: successful_rows_def)

lemma successful_rows_Cons:
  "successful_rows w3 tf (n # ns) =
     (case try_block w3 tf n of Inl e \<Rightarrow> [] | Inr row \<Rightarrow> [row]) @ successful_rows w3 tf ns"
  by (simp add: successful_rows_def)

lemma extract_loop_eq:
  "fst (extract_loop w3 tf nb stop b data tr) = data @ successful_rows w3 tf (rev [stop + 1..b]) \<and>
   get_blocks (snd (extract_loop w3 tf nb stop b data tr)) = get_blocks tr @ rev [stop + 1..b]"
proof (induction "nat (b - stop)" arbitrary: b data tr)
  case 0
  then have "b \<le> stop" by simp
  then show ?case
    by (simp add: extract_loop.simps [of w3 tf nb stop b data tr] successful_rows_def)
next
  case (Suc k)
  then have gt: "stop < b" and k: "k = nat (b - 1 - stop)" by simp_all
  have r: "rev [stop + 1..b] = b # rev [stop + 1..b - 1]"
    using gt by (simp add: upto_rec2)
  note ih = Suc.hyps(1) [OF k]
  show ?case
  proof (cases "try_block w3 tf b")
    case (Inl e)
    then show ?thesis
      using gt ih [of data "tr @ [GetBlock b, Logged ERROR ''Error extracting data for block {}: {}''
                        [AInt b, AExn e]]"]
      by (simp add: extract_loop.simps [of w3 tf nb stop b data tr] r successful_rows_Cons)
  next
    case (Inr row)
    then show ?thesis
      using gt ih [of "data @ [row]" "tr @ [GetBlock b]"]
        ih [of "data @ [row]" "tr @ [GetBlock b, Logged INFO ''Processed {}/{} blocks...''
                                     [AInt (int (length (data @ [row]))), AInt nb]]"]
      by (simp add: extract_loop.simps [of w3 tf nb stop b data tr] r successful_rows_Cons Let_def)
  qed
qed

lemma extract_block_data_eq:
  assumes "eth_block_number w3 = Inr H"
  shows "fst (extract_block_data w3 tf N tr) =
           Inr (successful_rows w3 tf (rev [max (H - N + 1) 0..H])) \<and>
         get_blocks (snd (extract_block_data w3 tf N tr)) =
           get_blocks tr @ rev [max (H - N + 1) 0..H]"
proof -
  have m: "(if H - N + 1 < 0 then 0 else H - N + 1) = max (H - N + 1) 0" by simp
  show ?thesis
    using extract_loop_eq [of w3 tf N "max (H - N + 1) 0 - 1" H "[]"
        "tr @ [Logged INFO ''Latest block number: {}'' [AInt H],
               Logged INFO ''Extracting data for the last {} blocks...'' [AInt N]]"]
    by (simp add: extract_block_data_def assms Let_def split_beta m del: max.absorb1 max.absorb2 max.absorb3 max.absorb4)
qed

lemma length_successful_rows: "length (successful_rows w3 tf ns) \<le> length ns"
  by (induction ns) (auto simp: successful_rows_Cons split: sum.splits)

lemma set_successful_rows:
  "set (successful_rows w3 tf ns) = {row. \<exists>n \<in> set ns. try_block w3 tf n = Inr row}"
  by (induction ns) (auto simp: successful_rows_Cons successful_rows_def split: sum.splits)

lemma block_data_number: "block_data tf blk = Inr row \<Longrightarrow> block_number row = number blk"
  by (auto simp: block_data_def Let_def split: sum.splits option.splits)

lemma try_block_number:
  assumes "\<forall>n blk. eth_get_block w3 n = Inr blk \<longrightarrow> number blk = n"
    and "try_block w3 tf n = Inr row"
  shows "block_number row = n"
  using assms by (auto simp: try_block_def split: sum.splits dest: block_data_number)

lemma map_block_number_successful_rows:
  assumes "\<forall>n blk. eth_get_block w3 n = Inr blk \<longrightarrow> number blk = n"
  shows "map block_number (successful_rows w3 tf ns) =
           filter (\<lambda>n. \<exists>row. try_block w3 tf n = Inr row) ns"
proof (induction ns)
  case Nil
  show ?case by (simp add: successful_rows_def)
next
  case (Cons n ns)
  show ?case
  proof (cases "try_block w3 tf n")
    case (Inl e)
    with Cons show ?thesis by (simp add: successful_rows_Cons)
  next
    case (Inr row)
    with Cons try_block_number [OF assms Inr] show ?thesis
      by (simp add: successful_rows_Cons)
  qed
qed

lemma sorted_desc_upto: "sorted_wrt (>) (rev [i..j])"
  by (simp add: sorted_wrt_rev sorted_wrt_upto)

text \<open>
  C5. With the chain head at \<open>H \<ge> 0\<close> and a window of \<open>N \<ge> 1\<close> blocks, the extractor
  returns a list and the block numbers it asks the node for are exactly
  \<open>H, H - 1, \<dots>, max (H - N + 1) 0\<close>, in this order: strictly descending, none negative,
  \<open>min N (H + 1)\<close> of them. It returns at most \<open>N\<close> and at most \<open>H + 1\<close> records.
  When the node answers each request with the block of the requested number, the records
  are in strictly decreasing order of \<open>block_number\<close>.
\<close>

theorem extract_block_data_window:
  assumes "eth_block_number w3 = Inr H" and "0 \<le> H" and "1 \<le> N"
  shows "\<exists>data. fst (extract_block_data w3 tf N tr) = Inr data \<and>
           get_blocks (snd (extract_block_data w3 tf N tr)) =
             get_blocks tr @ rev [max (H - N + 1) 0..H] \<and>
           sorted_wrt (>) (rev [max (H - N + 1) 0..H]) \<and>
           (\<forall>n \<in> set (rev [max (H - N + 1) 0..H]). 0 \<le> n \<and> n \<le> H) \<and>
           length (rev [max (H - N + 1) 0..H]) = nat (min N (H + 1)) \<and>
           length data \<le> nat N \<and> length data \<le> nat (H + 1) \<and>
           ((\<forall>n blk. eth_get_block w3 n = Inr blk \<longrightarrow> number blk = n) \<longrightarrow>
              sorted_wrt (>) (map block_number data))"
proof -
  define lo where "lo = max (H - N + 1) 0"
  let ?ns = "rev [lo..H]"
  let ?data = "successful_rows w3 tf ?ns"
  note eq = extract_block_data_eq [OF assms(1), of tf N tr, folded lo_def]
  have "H - lo + 1 = min N (H + 1)"
    using assms(2,3) unfolding lo_def by linarith
  then have len: "length ?ns = nat (min N (H + 1))" by simp
  have "length ?data \<le> nat (min N (H + 1))"
    using length_successful_rows [of w3 tf ?ns] len by simp
  then have le1: "length ?data \<le> nat N" and le2: "length ?data \<le> nat (H + 1)"
    by linarith+
  have srt: "(\<forall>n blk. eth_get_block w3 n = Inr blk \<longrightarrow> number blk = n) \<longrightarrow>
              sorted_wrt (>) (map block_number ?data)"
  proof
    assume c: "\<forall>n blk. eth_get_block w3 n = Inr blk \<longrightarrow> number blk = n"
    show "sorted_wrt (>) (map block_number ?data)"
      unfolding map_block_number_successful_rows [OF c]
      by (rule sorted_wrt_filter) (rule sorted_desc_upto)
  qed
  have "0 \<le> lo" by (simp add: lo_def)
  then have rng: "\<forall>n \<in> set ?ns. 0 \<le> n \<and> n \<le> H" by simp
  have desc: "sorted_wrt (>) ?ns" by (rule sorted_desc_upto)
  from eq have e1: "fst (extract_block_data w3 tf N tr) = Inr ?data"
    and e2: "get_blocks (snd (extract_block_data w3 tf N tr)) = get_blocks tr @ ?ns"
    by blast+
  from e1 e2 desc rng len le1 le2 srt show ?thesis
    unfolding lo_def by blast
qed

theorem extract_block_data_window_witness:
  "\<exists>data. fst (extract_block_data
               \<lparr>eth_block_number = Inr 50,
                eth_get_block = (\<lambda>n. Inr \<lparr>number = n, block_timestamp = 1700000000,
                                           transactions = [], baseFeePerGas = None\<rparr>)\<rparr>
               (\<lambda>x::rat. x) 100 []) = Inr data \<and>
          get_blocks (snd (extract_block_data
               \<lparr>eth_block_number = Inr 50,
                eth_get_block = (\<lambda>n. Inr \<lparr>number = n, block_timestamp = 1700000000,
                                           transactions = [], baseFeePerGas = None\<rparr>)\<rparr>
               (\<lambda>x::rat. x) 100 [])) = rev [0..50] \<and>
          length data \<le> 51 \<and>
          sorted_wrt (>) (map block_number data)"
proof -
  let ?w3 = "\<lparr>eth_block_number = Inr 50,
              eth_get_block = (\<lambda>n. Inr \<lparr>number = n, block_timestamp = 1700000000,
                                         transactions = [], baseFeePerGas = None\<rparr>)\<rparr>"
  have h1: "eth_block_number ?w3 = Inr 50" and h2: "(0::int) \<le> 50" and h3: "(1::int) \<le> 100"
    by simp_all
  have c: "\<forall>n blk. eth_get_block ?w3 n = Inr blk \<longrightarrow> number blk = n" by auto
  have m: "max (50 - 100 + 1) 0 = (0::int)" and n: "nat (50 + 1) = 51" by simp_all
  note t = extract_block_data_window [OF h1 h2 h3, of "\<lambda>x::rat. x" "[]", unfolded m n]
  from t obtain data where d: "fst (extract_block_data ?w3 (\<lambda>x::rat. x) 100 []) = Inr data"
    "get_blocks (snd (extract_block_data ?w3 (\<lambda>x::rat. x) 100 [])) = get_blocks [] @ rev [0..50]"
    "length data \<le> 51"
    "(\<forall>n blk. eth_get_block ?w3 n = Inr blk \<longrightarrow> number blk = n) \<longrightarrow>
       sorted_wrt (>) (map block_number data)"
    by blast
  from d(2) have g: "get_blocks (snd (extract_block_data ?w3 (\<lambda>x::rat. x) 100 [])) = rev [0..50]"
    by (simp only: get_blocks.simps append_Nil)
  from d(4) c have "sorted_wrt (>) (map block_number data)" by blast
  with d(1,3) g show ?thesis by blast
qed

lemma units_gwei: "units ''gwei'' = Some (10 ^ 9)"
  by (simp add: units_def)

lemma from_wei_gwei:
  "0 \<le> fee \<Longrightarrow> fee < 2 ^ 256 \<Longrightarrow> from_wei fee ''gwei'' = Inr (of_int fee / 10 ^ 9)"
  by (simp add: from_wei_def units_gwei)

lemma block_data_returns:
  assumes "block_timestamp blk \<le> 253402300799"
    and "\<forall>fee. baseFeePerGas blk = Some fee \<longrightarrow> 0 \<le> fee \<and> fee < 2 ^ 256"
  shows "\<exists>row. block_data tf blk = Inr row"
proof (cases "baseFeePerGas blk")
  case None
  with assms(1) show ?thesis
    by (simp add: block_data_def utc_fromtimestamp_def Let_def)
next
  case (Some fee)
  with assms(2) have "from_wei fee ''gwei'' = Inr (of_int fee / 10 ^ 9)"
    by (simp add: from_wei_gwei)
  with assms(1) Some show ?thesis
    by (simp add: block_data_def utc_fromtimestamp_def Let_def)
qed







text \<open>
  C4, as amended. When fetching block \<open>k\<close> of the window raises, the run still returns a
  list. The list is the records of the blocks above \<open>k\<close>, which is what had been collected
  when \<open>k\<close> was tried, followed by the records of the blocks below \<open>k\<close>; all blocks of
  the window are still tried. Every other block of the window whose fetch and record
  construction both succeeded has its record in the list; these include every block the node
  returned with a timestamp of at most 253402300799 (the end of year 9999) and a base fee
  within 256 bits. No record carries the number \<open>k\<close> (the node answering each request with
  the block of that number), and the list is shorter than the window.
\<close>

theorem extract_block_data_skips_failed_block:
  assumes "eth_block_number w3 = Inr H"
    and "max (H - N + 1) 0 \<le> k" and "k \<le> H"
    and "eth_get_block w3 k = Inl e"
  shows "\<exists>data. fst (extract_block_data w3 tf N tr) = Inr data \<and>
           data = successful_rows w3 tf (rev [k + 1..H]) @
                  successful_rows w3 tf (rev [max (H - N + 1) 0..k - 1]) \<and>
           fst (extract_loop w3 tf N k H [] tr') = successful_rows w3 tf (rev [k + 1..H]) \<and>
           get_blocks (snd (extract_block_data w3 tf N tr)) =
             get_blocks tr @ rev [max (H - N + 1) 0..H] \<and>
           (\<forall>n row. max (H - N + 1) 0 \<le> n \<and> n \<le> H \<and> try_block w3 tf n = Inr row \<longrightarrow>
              row \<in> set data) \<and>
           (\<forall>n blk. max (H - N + 1) 0 \<le> n \<and> n \<le> H \<and> eth_get_block w3 n = Inr blk \<and>
              block_timestamp blk \<le> 253402300799 \<and>
              (\<forall>fee. baseFeePerGas blk = Some fee \<longrightarrow> 0 \<le> fee \<and> fee < 2 ^ 256) \<longrightarrow>
              (\<exists>row \<in> set data. block_data tf blk = Inr row)) \<and>
           ((\<forall>n blk. eth_get_block w3 n = Inr blk \<longrightarrow> number blk = n) \<longrightarrow>
              k \<notin> block_number ` set data) \<and>
           length data < length (rev [max (H - N + 1) 0..H])"
proof -
  define lo where "lo = max (H - N + 1) 0"
  let ?A = "successful_rows w3 tf (rev [k + 1..H])"
  let ?B = "successful_rows w3 tf (rev [lo..k - 1])"
  let ?data = "successful_rows w3 tf (rev [lo..H])"
  have lo: "lo \<le> k" using assms(2) by (simp add: lo_def)
  note eq = extract_block_data_eq [OF assms(1), of tf N tr, folded lo_def]
  have tk: "try_block w3 tf k = Inl e" by (simp add: try_block_def assms(4))
  have split: "rev [lo..H] = rev [k + 1..H] @ k # rev [lo..k - 1]"
    using upto_split3 [OF lo assms(3)] by simp
  have data: "?data = ?A @ ?B"
    by (simp add: split successful_rows_Cons tk)
  have loop: "fst (extract_loop w3 tf N k H [] tr') = ?A"
    using extract_loop_eq [of w3 tf N k H "[]" tr'] by simp
  have all: "\<forall>n row. lo \<le> n \<and> n \<le> H \<and> try_block w3 tf n = Inr row \<longrightarrow> row \<in> set ?data"
    by (auto simp: set_successful_rows)
  have wf: "\<forall>n blk. lo \<le> n \<and> n \<le> H \<and> eth_get_block w3 n = Inr blk \<and>
              block_timestamp blk \<le> 253402300799 \<and>
              (\<forall>fee. baseFeePerGas blk = Some fee \<longrightarrow> 0 \<le> fee \<and> fee < 2 ^ 256) \<longrightarrow>
              (\<exists>row \<in> set ?data. block_data tf blk = Inr row)"
  proof (intro allI impI)
    fix n blk
    assume a: "lo \<le> n \<and> n \<le> H \<and> eth_get_block w3 n = Inr blk \<and>
              block_timestamp blk \<le> 253402300799 \<and>
              (\<forall>fee. baseFeePerGas blk = Some fee \<longrightarrow> 0 \<le> fee \<and> fee < 2 ^ 256)"
    then obtain row where row: "block_data tf blk = Inr row"
      using block_data_returns by blast
    with a have "try_block w3 tf n = Inr row" by (simp add: try_block_def)
    with a all have "row \<in> set ?data" by blast
    with row show "\<exists>row \<in> set ?data. block_data tf blk = Inr row" by blast
  qed
  have notk: "(\<forall>n blk. eth_get_block w3 n = Inr blk \<longrightarrow> number blk = n) \<longrightarrow>
              k \<notin> block_number ` set ?data"
  proof
    assume c: "\<forall>n blk. eth_get_block w3 n = Inr blk \<longrightarrow> number blk = n"
    show "k \<notin> block_number ` set ?data"
    proof
      assume "k \<in> block_number ` set ?data"
      then obtain row n where "try_block w3 tf n = Inr row" "block_number row = k"
        by (auto simp: set_successful_rows)
      with try_block_number [OF c] have "try_block w3 tf k = Inr row" by blast
      with tk show False by simp
    qed
  qed
  have "length ?data \<le> length (rev [k + 1..H]) + length (rev [lo..k - 1])"
    unfolding data using length_successful_rows [of w3 tf "rev [k + 1..H]"]
      length_successful_rows [of w3 tf "rev [lo..k - 1]"] by simp
  then have len: "length ?data < length (rev [lo..H])"
    by (simp add: split)
  from eq have e1: "fst (extract_block_data w3 tf N tr) = Inr ?data"
    and e2: "get_blocks (snd (extract_block_data w3 tf N tr)) = get_blocks tr @ rev [lo..H]"
    by blast+
  from e1 e2 data loop all wf notk len show ?thesis
    unfolding lo_def by blast
qed

theorem extract_block_data_skips_failed_block_witness:
  "\<exists>data. fst (extract_block_data
               \<lparr>eth_block_number = Inr 100,
                eth_get_block = (\<lambda>n. if n = 42 then Inl RPCError
                                      else Inr \<lparr>number = n, block_timestamp = 1700000000,
                                                transactions = [], baseFeePerGas = None\<rparr>)\<rparr>
               (\<lambda>x::rat. x) 100 []) = Inr data \<and>
          42 \<notin> block_number ` set data \<and>
          43 \<in> block_number ` set data \<and>
          41 \<in> block_number ` set data \<and>
          length data < 100"
proof -
  let ?blk = "\<lambda>n::int. \<lparr>number = n, block_timestamp = 1700000000,
                          transactions = [], baseFeePerGas = None\<rparr>"
  let ?w3 = "\<lparr>eth_block_number = Inr 100,
              eth_get_block = (\<lambda>n. if n = 42 then Inl RPCError else Inr (?blk n))\<rparr>"
  have h1: "eth_block_number ?w3 = Inr 100" and h2: "max (100 - 100 + 1) 0 \<le> (42::int)"
    and h3: "(42::int) \<le> 100" and h4: "eth_get_block ?w3 42 = Inl RPCError"
    by simp_all
  have c: "\<forall>n blk. eth_get_block ?w3 n = Inr blk \<longrightarrow> number blk = n" by auto
  have m: "max (100 - 100 + 1) 0 = (1::int)" by simp
  have l: "length (rev [1..100::int]) = 100" by (simp only: length_rev length_upto)
  note t = extract_block_data_skips_failed_block
      [OF h1 h2 h3 h4, of "\<lambda>x::rat. x" "[]" "[]", unfolded m l]
  from t obtain data where d: "fst (extract_block_data ?w3 (\<lambda>x::rat. x) 100 []) = Inr data"
    "\<forall>n blk. 1 \<le> n \<and> n \<le> 100 \<and> eth_get_block ?w3 n = Inr blk \<and>
              block_timestamp blk \<le> 253402300799 \<and>
              (\<forall>fee. baseFeePerGas blk = Some fee \<longrightarrow> 0 \<le> fee \<and> fee < 2 ^ 256) \<longrightarrow>
              (\<exists>row \<in> set data. block_data (\<lambda>x::rat. x) blk = Inr row)"
    "(\<forall>n blk. eth_get_block ?w3 n = Inr blk \<longrightarrow> number blk = n) \<longrightarrow>
       42 \<notin> block_number ` set data"
    "length data < 100"
    by blast
  from d(3) c have n42: "42 \<notin> block_number ` set data" by blast
  have has: "n \<in> block_number ` set data" if "1 \<le> n" "n \<le> 100" "n \<noteq> 42" for n
  proof -
    from that have "1 \<le> n \<and> n \<le> 100 \<and> eth_get_block ?w3 n = Inr (?blk n) \<and>
              block_timestamp (?blk n) \<le> 253402300799 \<and>
              (\<forall>fee. baseFeePerGas (?blk n) = Some fee \<longrightarrow> 0 \<le> fee \<and> fee < 2 ^ 256)"
      by simp
    with d(2) obtain row where "row \<in> set data" "block_data (\<lambda>x::rat. x) (?blk n) = Inr row"
      by blast
    then show ?thesis using block_data_number [of "\<lambda>x::rat. x" "?blk n" row] by force
  qed
  from has [of 43] has [of 41] n42 d(1,4) show ?thesis by auto
qed

text \<open>
  C4, as first stated, asks for a record of every other block whose fetch succeeded. That
  fails: with the head at 2 and a window of 3, block 1 raising and block 0 returned by the
  node with the timestamp 253402300800 (the first second of year 10000), the conversion on
  line 57 raises inside the same \<^verbatim>\<open>try\<close>, block 0 is skipped as well, and only the record
  of block 2 is returned.
\<close>

theorem extract_block_data_fetched_block_skipped:
  "eth_get_block
     \<lparr>eth_block_number = Inr 2,
      eth_get_block = (\<lambda>n. if n = 1 then Inl RPCError
                            else Inr \<lparr>number = n,
                                      block_timestamp = (if n = 0 then 253402300800 else 1700000000),
                                      transactions = [], baseFeePerGas = None\<rparr>)\<rparr> 1 = Inl RPCError \<and>
   eth_get_block
     \<lparr>eth_block_number = Inr 2,
      eth_get_block = (\<lambda>n. if n = 1 then Inl RPCError
                            else Inr \<lparr>number = n,
                                      block_timestamp = (if n = 0 then 253402300800 else 1700000000),
                                      transactions = [], baseFeePerGas = None\<rparr>)\<rparr> 0 =
     Inr \<lparr>number = 0, block_timestamp = 253402300800, transactions = [],
          baseFeePerGas = None\<rparr> \<and>
   fst (extract_block_data
          \<lparr>eth_block_number = Inr 2,
           eth_get_block = (\<lambda>n. if n = 1 then Inl RPCError
                                 else Inr \<lparr>number = n,
                                           block_timestamp = (if n = 0 then 253402300800 else 1700000000),
                                           transactions = [], baseFeePerGas = None\<rparr>)\<rparr>
          (\<lambda>x::rat. x) 3 []) =
     Inr [\<lparr>block_number = 2, timestamp = ''2023-11-14 22:13:20'', transaction_count = 0,
           base_fee_per_gas_gwei = 0\<rparr>]"
proof -
  let ?w3 = "\<lparr>eth_block_number = Inr 2,
      eth_get_block = (\<lambda>n. if n = 1 then Inl RPCError
                            else Inr \<lparr>number = n,
                                      block_timestamp = (if n = 0 then 253402300800 else 1700000000),
                                      transactions = [], baseFeePerGas = None\<rparr>)\<rparr>"
  have c: "civil_from_days 19675 = (2023, 11, 14)"
    by (simp add: civil_from_days_def Let_def cong: let_weak_cong)
  have s: "strftime \<lparr>epoch_day = 19675, hour = 22, minute = 13, second = 20\<rparr> =
             ''2023-11-14 22:13:20''"
    by (simp add: strftime_def c zpad2_def zpad4_def digit_def)
  have t2: "try_block ?w3 (\<lambda>x::rat. x) 2 =
              Inr \<lparr>block_number = 2, timestamp = ''2023-11-14 22:13:20'', transaction_count = 0,
                   base_fee_per_gas_gwei = 0\<rparr>"
    by (simp add: try_block_def block_data_def utc_fromtimestamp_def s)
  have t1: "try_block ?w3 (\<lambda>x::rat. x) 1 = Inl RPCError"
    by (simp add: try_block_def)
  have t0: "try_block ?w3 (\<lambda>x::rat. x) 0 = Inl (ValueError ''year 10000 is out of range'')"
    by (simp add: try_block_def block_data_def utc_fromtimestamp_def)
  have h: "eth_block_number ?w3 = Inr 2" by simp
  have r: "rev [max (2 - 3 + 1) 0..2] = [2, 1, 0::int]" by (simp add: upto_rec1)
  have "fst (extract_block_data ?w3 (\<lambda>x::rat. x) 3 []) =
          Inr (successful_rows ?w3 (\<lambda>x::rat. x) [2, 1, 0])"
    using extract_block_data_eq [OF h, of "\<lambda>x::rat. x" 3 "[]"] by (simp only: r)
  also have "successful_rows ?w3 (\<lambda>x::rat. x) [2, 1, 0] =
      [\<lparr>block_number = 2, timestamp = ''2023-11-14 22:13:20'', transaction_count = 0,
        base_fee_per_gas_gwei = 0\<rparr>]"
    by (simp only: successful_rows_Cons successful_rows_Nil t2 t1 t0 sum.case append.simps)
  finally show ?thesis by simp
qed

end
